theory Spec2Isabelle
  imports Main "HOL-Library.Word"
begin

unbundle bit_operations_syntax

section \<open>Data model of proxy/server.go\<close>

text \<open>
  Byte strings (Go \<open>[]byte\<close> and \<open>string\<close>) are \<open>string\<close>: an Isabelle \<open>char\<close> is one byte.
  A \<open>net.Conn\<close> value is \<open>nat option\<close>: \<open>None\<close> is the nil interface, \<open>Some i\<close> the socket
  with identity \<open>i\<close>. Channels and \<open>*DummyConn\<close> pointers are handles (\<open>nat\<close>) into a store.
\<close>

text \<open>\<open>UserConfig\<close> (lines 46-50): the per-user settings of the multi-user table.\<close>

datatype UserConfig = UserConfig (ucAuth: string) (ucThrottling: int) (ucThrottlingMax: int)

text \<open>
  Modelled from the spec: the option bitset of a decoded request and its \<open>IsSet\<close> test are
  declared outside server.go. The spec lists the options (DNS, Connect, Forward, LocalRP,
  UDPRelay, MuxUpgrade, WebSocket, Partial); a bitset is the set of the options that are set.
\<close>

datatype optflag =
  doConnect | doForward | doWebSocket | doDNS | doPartial | doUDPRelay | doLocalRP | doMuxWS

type_synonym Options = "optflag set"

definition IsSet :: "Options \<Rightarrow> optflag \<Rightarrow> bool" where
  "IsSet opt f = (f \<in> opt)"

text \<open>
  Modelled from the spec: \<open>clientRequest\<close> is declared outside server.go; server.go reads its
  fields \<open>Auth\<close>, \<open>Query\<close>, \<open>Opt\<close> and \<open>iv\<close>.
\<close>

record clientRequest =
  Auth :: string
  Query :: string
  Opt :: Options
  iv :: string

text \<open>
  Modelled from the spec: \<open>IOConfig\<close> is declared outside server.go; server.go sets its
  fields \<open>Bucket\<close> (a token bucket built from rate and burst), \<open>Partial\<close> and \<open>WSCtrl\<close>.
\<close>

datatype wsMode = wsNone | wsServer

record IOConfig =
  Bucket :: "(int \<times> int) option"
  Partial :: bool
  WSCtrl :: wsMode

text \<open>\<open>localRPCtrlSrvReq\<close> (lines 52-58); the Go field \<open>end\<close> is \<open>endFlag\<close> here.\<close>

record localRPCtrlSrvReq =
  dst :: string
  endFlag :: bool
  conn :: "nat option"
  callback :: "nat option"
  rawReq :: string

text \<open>\<open>localRPCtrlSrvResp\<close> (lines 60-64); \<open>err\<close> is the error's message, \<open>None\<close> for nil.\<close>

record localRPCtrlSrvResp =
  err :: "string option"
  localrpr :: string
  req :: localRPCtrlSrvReq

text \<open>The fallback handler \<open>rp\<close> that \<open>NewServer\<close> installs (lines 403-415).\<close>

datatype handler = ReverseProxy string | FileServer string

text \<open>
  Modelled from the spec: the address-keyed cache behind \<open>blacklist\<close> (package lru) is outside
  server.go. The spec (4.4): a bounded key-value cache (address to hit count), fixed capacity,
  least-recently-used eviction; \<open>record(address)\<close> increments or inserts; \<open>hits(address)\<close>
  returns the current count, 0 if absent. Entries are kept most recently used first.
\<close>

record lruCache =
  capacity :: nat
  entries :: "(string \<times> nat) list"

definition lru_hits :: "lruCache \<Rightarrow> string \<Rightarrow> nat" where
  "lru_hits c k = (case map_of (entries c) k of None \<Rightarrow> 0 | Some n \<Rightarrow> n)"

definition lru_Add :: "string \<Rightarrow> lruCache \<Rightarrow> lruCache" where
  "lru_Add k c =
     c\<lparr>entries := take (capacity c)
                     ((k, Suc (lru_hits c k)) # filter (\<lambda>e. fst e \<noteq> k) (entries c))\<rparr>"

text \<open>
  \<open>ProxyServer\<close> (lines 67-84) with the fields of the embedded \<open>ServerConfig\<close> (lines 28-43)
  that server.go's request handling reads. The slices \<open>downstreams\<close> and \<open>downConns\<close> are
  lists (a nil slice is the empty list: the code only appends to them, takes their length and
  ranges over them). \<open>requests\<close> is the handle of the queue channel, \<open>None\<close> for nil;
  \<open>waiting\<close> is \<open>None\<close> for the nil map. \<open>Users\<close> is \<open>None\<close> for the nil map.
\<close>

record ProxyServer =
  rp :: "handler option"
  blacklist :: lruCache
  downstreams :: "nat list"
  downConns :: "nat list"
  requests :: "nat option"
  waiting :: "(string \<rightharpoonup> localRPCtrlSrvResp) option"
  Throttling :: int
  ThrottlingMax :: int
  LBindTimeout :: int
  LBindCap :: int
  DisableUDP :: bool
  DisableLRP :: bool
  Users :: "(string \<rightharpoonup> UserConfig) option"

section \<open>Authentication and per-request I/O configuration\<close>

text \<open>\<open>auth\<close> (lines 86-93): a lookup in \<open>Users\<close>; a lookup in a nil map finds nothing.\<close>

definition auth :: "ProxyServer \<Rightarrow> string \<Rightarrow> bool" where
  "auth p a =
     (case Users p of
        None \<Rightarrow> False
      | Some m \<Rightarrow> (case m a of Some _ \<Rightarrow> True | None \<Rightarrow> False))"

text \<open>\<open>getIOConfig\<close> (lines 95-101): the zero \<open>IOConfig\<close>, with a bucket when throttling is on.\<close>

definition getIOConfig :: "ProxyServer \<Rightarrow> string \<Rightarrow> IOConfig" where
  "getIOConfig p a =
     (let ioc = \<lparr>Bucket = None, Partial = False, WSCtrl = wsNone\<rparr>
      in if Throttling p > 0
         then ioc\<lparr>Bucket := Some (Throttling p, ThrottlingMax p)\<rparr>
         else ioc)"

section \<open>Byte-level helpers from the Go standard library\<close>

definition CRLF :: string where
  "CRLF = [CHR 0x0D, CHR 0x0A]"

text \<open>\<open>binary.BigEndian.PutUint32\<close>: the four bytes of a \<open>uint32\<close>, most significant first.\<close>

definition PutUint32 :: "32 word \<Rightarrow> string" where
  "PutUint32 v = [char_of (unat (drop_bit 24 v)), char_of (unat (drop_bit 16 v)),
                  char_of (unat (drop_bit 8 v)), char_of (unat v)]"

text \<open>\<open>binary.BigEndian.Uint32\<close>, the reader that inverts \<open>PutUint32\<close> on four bytes.\<close>

fun Uint32 :: "string \<Rightarrow> nat" where
  "Uint32 [a, b, c, d] = ((of_char a * 256 + of_char b) * 256 + of_char c) * 256 + of_char d"
| "Uint32 _ = 0"

text \<open>\<open>fmt.Sprintf("%x", bytes)\<close>: two lower-case hex digits per byte.\<close>

definition hexdigit :: "nat \<Rightarrow> char" where
  "hexdigit n = ''0123456789abcdef'' ! (n mod 16)"

definition hex :: "string \<Rightarrow> string" where
  "hex bs = concat (map (\<lambda>c. [hexdigit (of_char c div 16), hexdigit (of_char c mod 16)]) bs)"

text \<open>\<open>base64.StdEncoding.EncodeToString\<close> (RFC 4648, with padding).\<close>

definition encodeStd :: string where
  "encodeStd = ''ABCDEFGHIJKLMNOPQRSTUVWXYZabcdefghijklmnopqrstuvwxyz0123456789+/''"

fun b64 :: "nat list \<Rightarrow> string" where
  "b64 (a # b # c # rest) =
     [encodeStd ! (a div 4), encodeStd ! ((a mod 4) * 16 + b div 16),
      encodeStd ! ((b mod 16) * 4 + c div 64), encodeStd ! (c mod 64)] @ b64 rest"
| "b64 [a, b] =
     [encodeStd ! (a div 4), encodeStd ! ((a mod 4) * 16 + b div 16),
      encodeStd ! ((b mod 16) * 4), CHR ''='']"
| "b64 [a] = [encodeStd ! (a div 4), encodeStd ! ((a mod 4) * 16), CHR ''='', CHR ''='']"
| "b64 [] = []"

definition EncodeToString :: "string \<Rightarrow> string" where
  "EncodeToString bs = b64 (map of_char bs)"

text \<open>
  \<open>sha1.Sum\<close> (FIPS 180-4): pad the message to a multiple of 64 bytes (a \<open>0x80\<close> byte, zero
  bytes, the bit length as 8 big-endian bytes), then run the 80-round compression on every
  block. The message schedule is kept newest word first.
\<close>

definition rotl :: "nat \<Rightarrow> 32 word \<Rightarrow> 32 word" where
  "rotl n x = (push_bit n x) OR (drop_bit (32 - n) x)"

definition be32 :: "string \<Rightarrow> 32 word" where
  "be32 bs = word_of_nat (Uint32 bs)"

definition PutUint64 :: "64 word \<Rightarrow> string" where
  "PutUint64 v = map (\<lambda>i. char_of (unat (drop_bit i v))) [56, 48, 40, 32, 24, 16, 8, 0]"

fun chunks :: "nat \<Rightarrow> 'a list \<Rightarrow> 'a list list" where
  "chunks n [] = []"
| "chunks n (x # xs) =
     (if n = 0 then [x # xs] else take n (x # xs) # chunks n (drop n (x # xs)))"

definition sha1_pad :: "string \<Rightarrow> string" where
  "sha1_pad m =
     (let l = length m; k = (119 - l mod 64) mod 64
      in m @ [CHR 0x80] @ replicate k (CHR 0x00) @ PutUint64 (word_of_nat (l * 8)))"

definition sha1_f :: "nat \<Rightarrow> 32 word \<Rightarrow> 32 word \<Rightarrow> 32 word \<Rightarrow> 32 word" where
  "sha1_f t b c d =
     (if t < 20 then (b AND c) OR (NOT b AND d)
      else if t < 40 then b XOR c XOR d
      else if t < 60 then (b AND c) OR (b AND d) OR (c AND d)
      else b XOR c XOR d)"

definition sha1_k :: "nat \<Rightarrow> 32 word" where
  "sha1_k t =
     (if t < 20 then 0x5A827999 else if t < 40 then 0x6ED9EBA1
      else if t < 60 then 0x8F1BBCDC else 0xCA62C1D6)"

fun sha1_sched :: "nat \<Rightarrow> 32 word list \<Rightarrow> 32 word list" where
  "sha1_sched 0 ws = ws"
| "sha1_sched (Suc n) ws =
     sha1_sched n (rotl 1 (ws ! 2 XOR ws ! 7 XOR ws ! 13 XOR ws ! 15) # ws)"

type_synonym sha1_state = "32 word \<times> 32 word \<times> 32 word \<times> 32 word \<times> 32 word"

fun sha1_rounds :: "nat \<Rightarrow> 32 word list \<Rightarrow> sha1_state \<Rightarrow> sha1_state" where
  "sha1_rounds t [] s = s"
| "sha1_rounds t (w # ws) (a, b, c, d, e) =
     sha1_rounds (Suc t) ws
       (rotl 5 a + sha1_f t b c d + e + w + sha1_k t, a, rotl 30 b, c, d)"

fun sha1_block :: "sha1_state \<Rightarrow> string \<Rightarrow> sha1_state" where
  "sha1_block (h0, h1, h2, h3, h4) blk =
     (let ws = rev (sha1_sched 64 (rev (map be32 (chunks 4 blk))));
          r = sha1_rounds 0 ws (h0, h1, h2, h3, h4)
      in case r of (a, b, c, d, e) \<Rightarrow> (h0 + a, h1 + b, h2 + c, h3 + d, h4 + e))"

definition sha1_Sum :: "string \<Rightarrow> string" where
  "sha1_Sum m =
     (case foldl sha1_block
             (0x67452301, 0xEFCDAB89, 0x98BADCFE, 0x10325476, 0xC3D2E1F0)
             (chunks 64 (sha1_pad m)) of
        (a, b, c, d, e) \<Rightarrow>
          PutUint32 a @ PutUint32 b @ PutUint32 c @ PutUint32 d @ PutUint32 e)"

section \<open>The world around the server\<close>

text \<open>
  A queue channel of \<open>localRPCtrlSrvReq\<close> values: its capacity and the values sent and not
  yet received, oldest first. A send completes at once while the buffer has room; otherwise
  the sending goroutine waits at the send (for a receiver or a free slot), and the model
  stops following it there.
\<close>

record reqChan =
  cap :: nat
  buf :: "localRPCtrlSrvReq list"

text \<open>
  Two bridge endpoints occur: a \<open>net.Conn\<close> and the in-process \<open>*DummyConn\<close> of an agent.
\<close>

datatype endpoint = NetConn "nat option" | Dummy nat

text \<open>
  The effects of a goroutine on what lies outside the \<open>ProxyServer\<close> struct and the
  channels, in program order: calls on the request's \<open>http.ResponseWriter\<close>, writes and
  closes on sockets, and the goroutines started. Log lines are not recorded.
\<close>

datatype action =
    WriteHeader nat
  | WriteBody string
  | WriteCiphered string string
  | AddHeader string string
  | ServeRP handler
  | CopyHeaders string string
  | CopyBody string string
  | ConnWrite nat string
  | ConnClose nat
  | DummyWrite nat string
  | DummyRead nat nat
  | Upgrade nat
  | GoBridge endpoint endpoint string IOConfig
  | GoRoutingLoop
  | GoHeartbeat nat nat
  | GoDummyWrite nat string

text \<open>
  The store: the server struct, the queue channels and the completion channels by handle,
  the next unused handle, and the random source \<open>Cipher.Rand\<close> as the stream of its future
  draws with the position reached. Completion channels all come from
  \<open>make(chan localRPCtrlSrvResp, 1)\<close> (line 179): capacity 1.
\<close>

record world =
  proxy :: ProxyServer
  reqChans :: "nat \<Rightarrow> reqChan"
  cbChans :: "nat \<Rightarrow> localRPCtrlSrvResp list"
  nextHandle :: nat
  randDraws :: "nat \<Rightarrow> nat"
  randPos :: nat

text \<open>
  Where a goroutine can stop short of returning: waiting at a channel operation (\<open>Parked\<close>,
  with the place) or dead of a run-time panic (\<open>Panicked\<close>). Each carries the store and the
  effects so far.
\<close>

datatype parkpoint =
    SendRequests
  | SelectCallback "nat option" nat
  | SendCallback
  | RecvRequests
  | HeartbeatSleep

datatype outcome =
    Returned world "action list"
  | Parked parkpoint world "action list"
  | Panicked world "action list"

text \<open>Put the effects \<open>pre\<close>, which happened first, in front of those of an outcome.\<close>

fun after :: "action list \<Rightarrow> outcome \<Rightarrow> outcome" where
  "after pre (Returned w acts) = Returned w (pre @ acts)"
| "after pre (Parked pt w acts) = Parked pt w (pre @ acts)"
| "after pre (Panicked w acts) = Panicked w (pre @ acts)"

text \<open>
  What the calls of one \<open>ServeHTTP\<close> run into code outside server.go return, and the
  constant \<open>dnsRespHeader\<close> declared outside it. \<open>None\<close> stands for a returned error (for
  \<open>hijack\<close>: the nil connection it returns on failure, lines 112-126).
\<close>

record env =
  splitHostPort :: "string option"
  dumpRequest :: string
  decryptHost :: "string \<times> clientRequest option"
  hijacked :: "nat option"
  wsKey :: string
  now :: string
  dnsRespHeader :: string
  resolveIPAddr :: "string option"
  dialUDP :: "nat option"
  dialTCP :: "nat option"
  urlParse :: bool
  roundTrip :: "string + (nat \<times> string \<times> string)"
  ctrlWriteOk :: bool

section \<open>Channel and random-source primitives\<close>

text \<open>
  A send on a queue channel: \<open>None\<close> when it cannot complete now (a nil channel never
  accepts; a full buffer makes the sender wait), else the store with the value appended.
\<close>

definition sendReq :: "nat option \<Rightarrow> localRPCtrlSrvReq \<Rightarrow> world \<Rightarrow> world option" where
  "sendReq ch r w =
     (case ch of
        None \<Rightarrow> None
      | Some q \<Rightarrow>
          if length (buf (reqChans w q)) < cap (reqChans w q)
          then Some (w\<lparr>reqChans := (reqChans w)
                         (q := (reqChans w q)\<lparr>buf := buf (reqChans w q) @ [r]\<rparr>)\<rparr>)
          else None)"

text \<open>A send on a completion channel (capacity 1).\<close>

definition sendCb :: "nat option \<Rightarrow> localRPCtrlSrvResp \<Rightarrow> world \<Rightarrow> world option" where
  "sendCb ch resp w =
     (case ch of
        None \<Rightarrow> None
      | Some c \<Rightarrow>
          if length (cbChans w c) < 1
          then Some (w\<lparr>cbChans := (cbChans w)(c := cbChans w c @ [resp])\<rparr>)
          else None)"

text \<open>\<open>Rand.Read\<close> fills \<open>n\<close> bytes; \<open>Rand.Intn n\<close> panics for \<open>n \<le> 0\<close>, else is below \<open>n\<close>.\<close>

definition Rand_Read :: "nat \<Rightarrow> world \<Rightarrow> string \<times> world" where
  "Rand_Read n w =
     (map (\<lambda>i. char_of (randDraws w (randPos w + i))) [0..<n], w\<lparr>randPos := randPos w + n\<rparr>)"

definition Intn :: "nat \<Rightarrow> world \<Rightarrow> (nat \<times> world) option" where
  "Intn n w =
     (if n = 0 then None
      else Some (randDraws w (randPos w) mod n, w\<lparr>randPos := Suc (randPos w)\<rparr>))"

section \<open>The request dispatcher\<close>

definition page404 :: string where
  "page404 =
     ''<html>'' @ [CHR 0x0A] @
     ''<head><title>404 Not Found</title></head>'' @ [CHR 0x0A] @
     ''<body bgcolor='' @ [CHR 0x22] @ ''white'' @ [CHR 0x22] @ ''>'' @ [CHR 0x0A] @
     ''<center><h1>404 Not Found</h1></center>'' @ [CHR 0x0A] @
     ''<hr><center>nginx</center>'' @ [CHR 0x0A] @
     ''</body>'' @ [CHR 0x0A] @
     ''</html>''"

text \<open>\<open>replySomething\<close> (lines 147-160): the default page.\<close>

definition replySomething :: "ProxyServer \<Rightarrow> action list" where
  "replySomething p =
     (case rp p of
        None \<Rightarrow> [WriteHeader 404, WriteBody page404]
      | Some h \<Rightarrow> [ServeRP h])"

text \<open>\<open>hijack\<close> (lines 112-126): the socket, or nil.\<close>

definition hijack :: "env \<Rightarrow> nat option" where
  "hijack e = hijacked e"

text \<open>
  \<open>replyGood\<close> (lines 128-144): the success response written to \<open>downstreamConn\<close> and the
  \<open>IOConfig\<close> it updates through the pointer. \<open>None\<close>: the write on a nil connection panics.
\<close>

definition wsGUID :: string where
  "wsGUID = ''258EAFA5-E914-47DA-95CA-C5AB0DC85B11''"

definition replyGood ::
  "env \<Rightarrow> nat option \<Rightarrow> clientRequest \<Rightarrow> IOConfig \<Rightarrow> (IOConfig \<times> action list) option" where
  "replyGood e downstreamConn cr ioc =
     (let (ioc', p) =
            (if IsSet (Opt cr) doWebSocket
             then (ioc\<lparr>WSCtrl := wsServer\<rparr>,
                   ''HTTP/1.1 101 Switching Protocols'' @ CRLF @
                   ''Upgrade: websocket'' @ CRLF @
                   ''Connection: upgrade'' @ CRLF @
                   ''Sec-WebSocket-Accept: '' @
                   EncodeToString (sha1_Sum (wsKey e @ wsGUID)) @ CRLF @ CRLF)
             else (ioc,
                   ''HTTP/1.1 200 OK'' @ CRLF @
                   ''Content-Type: application/octet-stream'' @ CRLF @
                   ''Date: '' @ now e @ CRLF @ CRLF))
      in case downstreamConn of
           None \<Rightarrow> None
         | Some d \<Rightarrow> Some (ioc', [ConnWrite d p]))"

text \<open>
  The cleanup scan (lines 201-208): range over \<open>waiting\<close> and delete the first entry met
  whose request holds \<open>userConn\<close>. Go visits the keys of a map in an order of its choosing;
  \<open>order\<close> is that order. Ranging over the nil map visits nothing.
\<close>

definition cleanupWaiting :: "string list \<Rightarrow> nat option \<Rightarrow> ProxyServer \<Rightarrow> ProxyServer" where
  "cleanupWaiting order userConn p =
     (case waiting p of
        None \<Rightarrow> p
      | Some m \<Rightarrow>
          (case find (\<lambda>k. case m k of
                             Some resp \<Rightarrow> conn (req resp) = userConn
                           | None \<Rightarrow> False) order of
             None \<Rightarrow> p
           | Some k \<Rightarrow> p\<lparr>waiting := Some (m(k := None))\<rparr>))"

text \<open>
  The decode-failure path while a session is active, up to the \<open>select\<close> (lines 178-189):
  hijack, make the completion channel, send the pending request on the queue. The goroutine
  is then parked at the \<open>select\<close>, holding \<open>userConn\<close> and the channel.
\<close>

definition ServeHTTP_enqueue :: "env \<Rightarrow> string \<Rightarrow> string \<Rightarrow> world \<Rightarrow> outcome" where
  "ServeHTTP_enqueue e dsts raw w =
     (let userConn = hijack e;
          cb = nextHandle w;
          w1 = w\<lparr>cbChans := (cbChans w)(cb := []), nextHandle := Suc cb\<rparr>
      in case sendReq (requests (proxy w1))
                \<lparr>dst = dsts, endFlag = False, conn = userConn,
                 callback = Some cb, rawReq = raw\<rparr> w1 of
           None \<Rightarrow> Parked SendRequests w1 []
         | Some w2 \<Rightarrow> Parked (SelectCallback userConn cb) w2 [])"

text \<open>
  The \<open>select\<close> and what follows it (lines 189-209). The scheduler picks the case that
  fires: \<open>CallbackReady\<close> needs a value in the completion channel, \<open>TimeoutElapsed\<close> is the
  timer of \<open>LBindTimeout\<close> seconds. A write on a nil \<open>userConn\<close> panics.
\<close>

datatype selectCase = CallbackReady | TimeoutElapsed

definition ServeHTTP_select ::
  "selectCase \<Rightarrow> string list \<Rightarrow> nat option \<Rightarrow> nat \<Rightarrow> world \<Rightarrow> outcome" where
  "ServeHTTP_select sel order userConn cb w =
     (case sel of
        CallbackReady \<Rightarrow>
          (case cbChans w cb of
             [] \<Rightarrow> Parked (SelectCallback userConn cb) w []
           | resp # rest \<Rightarrow>
               (let w1 = w\<lparr>cbChans := (cbChans w)(cb := rest)\<rparr>
                in case err resp of
                     Some msg \<Rightarrow>
                       (case userConn of
                          None \<Rightarrow> Panicked w1 []
                        | Some c \<Rightarrow>
                            Returned w1
                              [ConnWrite c (''HTTP/1.1 400 Bad Request'' @ CRLF @ CRLF @
                                            ''Error: '' @ msg)])
                   | None \<Rightarrow>
                       Returned (w1\<lparr>proxy := cleanupWaiting order userConn (proxy w1)\<rparr>) []))
      | TimeoutElapsed \<Rightarrow>
          (case userConn of
             None \<Rightarrow> Panicked w []
           | Some c \<Rightarrow>
               Returned (w\<lparr>proxy := cleanupWaiting order userConn (proxy w)\<rparr>)
                 [ConnWrite c (''HTTP/1.1 502 Bad Gateway'' @ CRLF @ CRLF @
                               ''Error: localrp timed out'')]))"

section \<open>The LocalRP controller\<close>

definition ok200 :: string where
  "ok200 = ''HTTP/1.1 200 OK'' @ CRLF @ CRLF"

text \<open>
  \<open>startLocalRPControlServer\<close> (lines 431-534), the registration itself; the routing loop,
  the bridge and the heartbeat it starts are goroutines of their own, recorded as started.
  \<open>make(chan, n)\<close> panics for a negative \<open>n\<close>.
\<close>

definition startLocalRPControlServer ::
  "env \<Rightarrow> nat option \<Rightarrow> clientRequest \<Rightarrow> IOConfig \<Rightarrow> world \<Rightarrow> outcome" where
  "startLocalRPControlServer e downstream cr ioc w =
     (case downstream of
        None \<Rightarrow> Panicked w []
      | Some d \<Rightarrow>
          if \<not> ctrlWriteOk e then Returned w [ConnWrite d ok200, ConnClose d]
          else if DisableLRP (proxy w) then Returned w [ConnWrite d ok200, ConnClose d]
          else if requests (proxy w) = None \<and> LBindCap (proxy w) < 0
          then Panicked w [ConnWrite d ok200]
          else
            (let w1 = (case requests (proxy w) of
                         None \<Rightarrow>
                           w\<lparr>proxy := (proxy w)\<lparr>requests := Some (nextHandle w)\<rparr>,
                             reqChans := (reqChans w)
                               (nextHandle w := \<lparr>cap = nat (LBindCap (proxy w)), buf = []\<rparr>),
                             nextHandle := Suc (nextHandle w)\<rparr>
                       | Some q \<Rightarrow> w);
                 p1 = (case waiting (proxy w1) of
                         None \<Rightarrow> (proxy w1)\<lparr>waiting := Some Map.empty\<rparr>
                       | Some m \<Rightarrow> proxy w1);
                 c = nextHandle w1;
                 p2 = p1\<lparr>downstreams := downstreams p1 @ [d], downConns := downConns p1 @ [c]\<rparr>
             in Returned (w1\<lparr>proxy := p2, nextHandle := Suc c\<rparr>)
                  ([ConnWrite d ok200] @
                   (if length (downConns p2) = 1 then [GoRoutingLoop] else []) @
                   [GoBridge (NetConn (Some d)) (Dummy c) (iv cr) ioc, GoHeartbeat c d])))"

text \<open>\<open>pickAControlConn\<close> (lines 425-429); \<open>None\<close>: \<open>Intn\<close> panics when no agent is left.\<close>

definition pickAControlConn :: "world \<Rightarrow> (nat \<times> world) option" where
  "pickAControlConn w =
     (case Intn (length (downConns (proxy w))) w of
        None \<Rightarrow> None
      | Some (i, w') \<Rightarrow> Some (downConns (proxy w) ! i, w'))"

text \<open>
  The response of lines 473-475: only \<open>err\<close> is set, to \<open>fmt.Errorf("request too long")\<close>.
\<close>

definition tooLong :: localRPCtrlSrvResp where
  "tooLong = \<lparr>err = Some ''request too long'', localrpr = [],
              req = \<lparr>dst = [], endFlag = False, conn = None, callback = None, rawReq = []\<rparr>\<rparr>"

text \<open>
  One turn of the routing loop on a received request that is not the end marker
  (lines 472-494). \<open>Returned\<close> is the end of the turn (the loop goes on). Storing into the
  nil map panics.
\<close>

definition routeRequest :: "localRPCtrlSrvReq \<Rightarrow> world \<Rightarrow> outcome" where
  "routeRequest r w =
     (if length (dst r) \<ge> 65535
      then (case sendCb (callback r) tooLong w of
              None \<Rightarrow> Parked SendCallback w []
            | Some w' \<Rightarrow> Returned w' [])
      else
        (let (tok, w1) = Rand_Read 16 w;
             msg = tok @ PutUint32 (word_of_nat (length (rawReq r))) @ rawReq r;
             key = hex tok
         in case waiting (proxy w1) of
              None \<Rightarrow> Panicked w1 []
            | Some m \<Rightarrow>
                (let w2 = w1\<lparr>proxy := (proxy w1)
                            \<lparr>waiting := Some (m(key \<mapsto>
                               \<lparr>err = None, localrpr = key, req = r\<rparr>))\<rparr>\<rparr>
                 in case pickAControlConn w2 of
                      None \<Rightarrow> Panicked w2 []
                    | Some (connw, w3) \<Rightarrow> Returned w3 [GoDummyWrite connw msg])))"

text \<open>
  A turn that ends leaves the queue handle and the queue channels as they were; the loop
  below therefore meets a shorter queue at each turn.
\<close>

lemma routeRequest_queue:
  assumes "routeRequest r w = Returned w' acts"
  shows "requests (proxy w') = requests (proxy w) \<and> reqChans w' = reqChans w"
  using assms
  by (auto simp: routeRequest_def sendCb_def Rand_Read_def pickAControlConn_def Intn_def
      Let_def split: option.splits if_splits prod.splits)

text \<open>
  The routing loop (lines 465-496): receive from the channel that \<open>requests\<close> names at
  that moment; stop at the end marker; otherwise route the request and go round again. It
  is parked when the handle is nil or the queue is empty.
\<close>

function routingLoop :: "world \<Rightarrow> outcome" where
  "routingLoop w =
     (case requests (proxy w) of
        None \<Rightarrow> Parked RecvRequests w []
      | Some q \<Rightarrow>
          (case buf (reqChans w q) of
             [] \<Rightarrow> Parked RecvRequests w []
           | r # rest \<Rightarrow>
               if endFlag r
               then Returned (w\<lparr>reqChans := (reqChans w)(q := (reqChans w q)\<lparr>buf := rest\<rparr>)\<rparr>) []
               else (case routeRequest r
                            (w\<lparr>reqChans := (reqChans w)(q := (reqChans w q)\<lparr>buf := rest\<rparr>)\<rparr>) of
                       Returned w2 acts \<Rightarrow> after acts (routingLoop w2)
                     | Parked pt w2 acts \<Rightarrow> Parked pt w2 acts
                     | Panicked w2 acts \<Rightarrow> Panicked w2 acts)))"
  by pat_completeness auto

termination
proof (relation "measure (\<lambda>w. case requests (proxy w) of
                                None \<Rightarrow> 0
                              | Some q \<Rightarrow> length (buf (reqChans w q)))")
  show "wf (measure (\<lambda>w. case requests (proxy w) of
                            None \<Rightarrow> 0
                          | Some q \<Rightarrow> length (buf (reqChans w q))))"
    by simp
next
  fix w q r rest w2 acts
  assume q: "requests (proxy w) = Some q"
    and b: "buf (reqChans w q) = r # rest"
    and rr: "routeRequest r
               (w\<lparr>reqChans := (reqChans w)(q := (reqChans w q)\<lparr>buf := rest\<rparr>)\<rparr>)
             = Returned w2 acts"
  from routeRequest_queue [OF rr]
  have "requests (proxy w2) = Some q"
    and "reqChans w2 = (reqChans w)(q := (reqChans w q)\<lparr>buf := rest\<rparr>)"
    using q by simp_all
  then show "(w2, w) \<in> measure (\<lambda>w. case requests (proxy w) of
                                        None \<Rightarrow> 0
                                      | Some q \<Rightarrow> length (buf (reqChans w q)))"
    using q b by simp
qed

declare routingLoop.simps [simp del]

lemma after_Nil [simp]: "after [] out = out"
  by (cases out) simp_all

text \<open>The index of the first occurrence, as the \<open>range\<close> with \<open>break\<close> finds it.\<close>

fun indexOf :: "nat \<Rightarrow> nat list \<Rightarrow> nat option" where
  "indexOf x [] = None"
| "indexOf x (y # ys) =
     (if y = x then Some 0 else map_option Suc (indexOf x ys))"

text \<open>\<open>append(s[:i], s[i+1:]...)\<close>, for \<open>i\<close> below the length.\<close>

definition removeAt :: "nat \<Rightarrow> 'a list \<Rightarrow> 'a list" where
  "removeAt i xs = take i xs @ drop (Suc i) xs"

text \<open>
  The teardown at the end of an agent's heartbeat goroutine (lines 518-532), run under the
  session lock. \<open>s[i+1:]\<close> panics when \<open>i + 1\<close> exceeds the length. The end marker is sent
  while the lock is held; when the send cannot complete the goroutine stays parked there,
  the agent already removed.
\<close>

definition endMarker :: localRPCtrlSrvReq where
  "endMarker = \<lparr>dst = [], endFlag = True, conn = None, callback = None, rawReq = []\<rparr>"

definition teardown :: "nat \<Rightarrow> nat \<Rightarrow> world \<Rightarrow> outcome" where
  "teardown connw downstream w =
     (let p = proxy w
      in case (case indexOf connw (downConns p) of
                 None \<Rightarrow> Some p
               | Some i \<Rightarrow>
                   if i < length (downstreams p)
                   then Some (p\<lparr>downstreams := removeAt i (downstreams p),
                                downConns := removeAt i (downConns p)\<rparr>)
                   else None) of
           None \<Rightarrow> Panicked w []
         | Some p1 \<Rightarrow>
             if length (downstreams p1) = 0
             then (case sendReq (requests p1) endMarker (w\<lparr>proxy := p1\<rparr>) of
                     None \<Rightarrow> Parked SendRequests (w\<lparr>proxy := p1\<rparr>) []
                   | Some w1 \<Rightarrow>
                       Returned (w1\<lparr>proxy := (proxy w1)\<lparr>waiting := None, requests := None\<rparr>\<rparr>)
                         [ConnClose downstream])
             else Returned (w\<lparr>proxy := p1\<rparr>) [ConnClose downstream])"

text \<open>
  The heartbeat goroutine (lines 504-533). The list gives, round by round, whether the
  ping write and the pong read succeed; the first failure leads to the teardown. While
  every round succeeds the goroutine sleeps between rounds.
\<close>

definition ping :: string where
  "ping = replicate 16 (CHR 0x00)"

fun heartbeat :: "(bool \<times> bool) list \<Rightarrow> nat \<Rightarrow> nat \<Rightarrow> world \<Rightarrow> outcome" where
  "heartbeat [] connw downstream w = Parked HeartbeatSleep w []"
| "heartbeat ((wr, rd) # rounds) connw downstream w =
     (if \<not> wr then after [DummyWrite connw ping] (teardown connw downstream w)
      else if \<not> rd
      then after [DummyWrite connw ping, DummyRead connw 16] (teardown connw downstream w)
      else after [DummyWrite connw ping, DummyRead connw 16]
             (heartbeat rounds connw downstream w))"

section \<open>The branches of the dispatcher and \<open>ServeHTTP\<close>\<close>

text \<open>The DNS branch (lines 231-240).\<close>

definition ServeHTTP_dns :: "env \<Rightarrow> clientRequest \<Rightarrow> world \<Rightarrow> outcome" where
  "ServeHTTP_dns e cr w =
     (let ip = (case resolveIPAddr e of
                  None \<Rightarrow> [CHR 0x7F, CHR 0x00, CHR 0x00, CHR 0x01]
                | Some a \<Rightarrow> a)
      in Returned w [AddHeader (dnsRespHeader e) (EncodeToString ip), WriteHeader 200])"

text \<open>
  The LocalRP branch (lines 242-261): registration for the reserved destination, else the
  fulfilment of a waiting request by its token. The fulfilment reads the entry, answers the
  new socket, bridges it to the waiting request's socket and sends the entry on that
  request's completion channel.
\<close>

definition ServeHTTP_localrp :: "env \<Rightarrow> string \<Rightarrow> clientRequest \<Rightarrow> world \<Rightarrow> outcome" where
  "ServeHTTP_localrp e dsts cr w =
     (let p = proxy w;
          ioc = (getIOConfig p (Auth cr))\<lparr>Partial := IsSet (Opt cr) doPartial\<rparr>
      in if dsts = ''localrp'' then startLocalRPControlServer e (hijack e) cr ioc w
         else case waiting p of
                None \<Rightarrow> Returned w []
              | Some m \<Rightarrow>
                  (case m dsts of
                     None \<Rightarrow> Returned w []
                   | Some resp \<Rightarrow>
                       (case replyGood e (hijack e) cr ioc of
                          None \<Rightarrow> Panicked w []
                        | Some (ioc', acts) \<Rightarrow>
                            (case sendCb (callback (req resp)) resp w of
                               None \<Rightarrow>
                                 Parked SendCallback w
                                   (acts @ [GoBridge (NetConn (hijack e))
                                              (NetConn (conn (req resp))) (iv cr) ioc'])
                             | Some w' \<Rightarrow>
                                 Returned w'
                                   (acts @ [GoBridge (NetConn (hijack e))
                                              (NetConn (conn (req resp))) (iv cr) ioc'])))))"

text \<open>The Connect branch (lines 263-316).\<close>

definition ServeHTTP_connect :: "env \<Rightarrow> string \<Rightarrow> clientRequest \<Rightarrow> world \<Rightarrow> outcome" where
  "ServeHTTP_connect e dsts cr w =
     (let p = proxy w
      in if dsts = [] then Returned w (replySomething p)
         else case hijack e of
                None \<Rightarrow> Returned w []
              | Some d \<Rightarrow>
                  (let ioc = (getIOConfig p (Auth cr))\<lparr>Partial := IsSet (Opt cr) doPartial\<rparr>
                   in if IsSet (Opt cr) doUDPRelay \<and> DisableUDP p then Returned w [ConnClose d]
                      else case (if IsSet (Opt cr) doUDPRelay then dialUDP e else dialTCP e) of
                             None \<Rightarrow> Returned w [ConnClose d]
                           | Some t \<Rightarrow>
                               (case replyGood e (Some d) cr ioc of
                                  None \<Rightarrow> Panicked w []
                                | Some (ioc', acts) \<Rightarrow>
                                    Returned w
                                      (acts @
                                       (if IsSet (Opt cr) doMuxWS then [Upgrade d]
                                        else [GoBridge (NetConn (Some d)) (NetConn (Some t))
                                                (iv cr) ioc'])))))"

text \<open>
  The Forward branch (lines 318-349). \<open>roundTrip\<close> is the error text, or the status, the
  headers and the body of the response. \<open>proxy.Write\<close> (lines 103-110) sets the status and
  writes the text under the request's cipher stream.
\<close>

definition ServeHTTP_forward :: "env \<Rightarrow> string \<Rightarrow> clientRequest \<Rightarrow> world \<Rightarrow> outcome" where
  "ServeHTTP_forward e dsts cr w =
     (if \<not> urlParse e then Returned w (replySomething (proxy w))
      else case roundTrip e of
             Inl msg \<Rightarrow> Returned w [WriteHeader 500, WriteCiphered (iv cr) msg]
           | Inr (status, hdr, body) \<Rightarrow>
               Returned w [CopyHeaders (iv cr) hdr, WriteHeader status, CopyBody (iv cr) body])"

text \<open>
  \<open>ServeHTTP\<close> (lines 146-354), up to its return or to the \<open>select\<close> of the decode-failure
  path. The hit count read at line 224 is only logged.
\<close>

definition ServeHTTP :: "env \<Rightarrow> world \<Rightarrow> outcome" where
  "ServeHTTP e w =
     (let p = proxy w
      in case splitHostPort e of
           None \<Rightarrow> Returned w (replySomething p)
         | Some addr \<Rightarrow>
             (let raw = (if waiting p \<noteq> None then dumpRequest e else []);
                  invalid =
                    (if waiting p \<noteq> None
                     then ServeHTTP_enqueue e (fst (decryptHost e)) raw w
                     else Returned (w\<lparr>proxy := p\<lparr>blacklist := lru_Add addr (blacklist p)\<rparr>\<rparr>)
                            (replySomething p))
              in case decryptHost e of
                   (dsts, None) \<Rightarrow> invalid
                 | (dsts, Some cr) \<Rightarrow>
                     if dsts = [] then invalid
                     else if Users p \<noteq> None \<and> \<not> auth p (Auth cr) then Returned w []
                     else if IsSet (Opt cr) doDNS then ServeHTTP_dns e cr w
                     else if IsSet (Opt cr) doLocalRP then ServeHTTP_localrp e dsts cr w
                     else if IsSet (Opt cr) doConnect then ServeHTTP_connect e dsts cr w
                     else if IsSet (Opt cr) doForward then ServeHTTP_forward e dsts cr w
                     else Returned (w\<lparr>proxy := p\<lparr>blacklist := lru_Add addr (blacklist p)\<rparr>\<rparr>)
                            (replySomething p)))"

section \<open>Notions used in the statements\<close>

text \<open>
  The environment of a request whose envelope decodes to destination \<open>dsts\<close> and to the
  request \<open>cr\<close> with its option set replaced by \<open>opt\<close>.
\<close>

definition withOpt :: "env \<Rightarrow> string \<Rightarrow> clientRequest \<Rightarrow> Options \<Rightarrow> env" where
  "withOpt e dsts cr opt = e\<lparr>decryptHost := (dsts, Some (cr\<lparr>Opt := opt\<rparr>))\<rparr>"

text \<open>
  The same 32-bit value, written through its unsigned reading: used to keep the numerals of
  a SHA-1 computation below \<open>2 ^ 32\<close> while it is evaluated.
\<close>

definition norm32 :: "32 word \<Rightarrow> 32 word" where
  "norm32 x = word_of_nat (unat x)"

section \<open>Sample configurations\<close>

definition alice :: UserConfig where
  "alice = UserConfig ''secret-a'' 10 20"

definition bob :: UserConfig where
  "bob = UserConfig ''secret-b'' 0 0"

definition proxy0 :: ProxyServer where
  "proxy0 = \<lparr>rp = None, blacklist = \<lparr>capacity = 128, entries = []\<rparr>,
     downstreams = [], downConns = [], requests = None, waiting = None,
     Throttling = 0, ThrottlingMax = 0, LBindTimeout = 30, LBindCap = 100,
     DisableUDP = False, DisableLRP = False, Users = None\<rparr>"

definition world0 :: world where
  "world0 = \<lparr>proxy = proxy0, reqChans = (\<lambda>h. \<lparr>cap = 0, buf = []\<rparr>), cbChans = (\<lambda>h. []),
     nextHandle = 0, randDraws = (\<lambda>i. 7 * i + 3), randPos = 0\<rparr>"

text \<open>
  A session with one agent (socket 1, endpoint handle 1) and the queue channel 0 of
  capacity 100.
\<close>

definition world1 :: world where
  "world1 = world0\<lparr>
     proxy := proxy0\<lparr>downstreams := [1], downConns := [1], requests := Some 0,
                      waiting := Some Map.empty\<rparr>,
     reqChans := (reqChans world0)(0 := \<lparr>cap = 100, buf = []\<rparr>),
     nextHandle := 2\<rparr>"

definition cr0 :: clientRequest where
  "cr0 = \<lparr>Auth = ''tok-a'', Query = ''example.org'', Opt = {doConnect}, iv = ''0123456789abcdef''\<rparr>"

definition env0 :: env where
  "env0 = \<lparr>splitHostPort = Some ''203.0.113.9'', dumpRequest = ''GET / HTTP/1.1'' @ CRLF @ CRLF,
     decryptHost = ([], None), hijacked = Some 7, wsKey = ''dGhlIHNhbXBsZSBub25jZQ=='',
     now = ''Sat, 31 Oct 2026 00:00:00 UTC'', dnsRespHeader = ''X-Host-Lookup'',
     resolveIPAddr = Some [CHR 0x5D, CHR 0xB8, CHR 0xD8, CHR 0x22], dialUDP = Some 8,
     dialTCP = Some 9, urlParse = True, roundTrip = Inl ''connection refused'',
     ctrlWriteOk = True\<rparr>"

definition ioc0 :: IOConfig where
  "ioc0 = \<lparr>Bucket = None, Partial = False, WSCtrl = wsNone\<rparr>"

text \<open>
  A pending request with a destination of 65535 bytes at the head of the queue, its
  completion channel 2 still empty; and an ordinary pending request.
\<close>

definition bigReq :: localRPCtrlSrvReq where
  "bigReq = \<lparr>dst = replicate 65535 (CHR ''a''), endFlag = False, conn = Some 7,
              callback = Some 2, rawReq = ''GET / HTTP/1.1'' @ CRLF @ CRLF\<rparr>"

definition world2 :: world where
  "world2 = world1\<lparr>reqChans := (reqChans world1)(0 := \<lparr>cap = 100, buf = [bigReq]\<rparr>),
                    nextHandle := 3\<rparr>"

definition req1 :: localRPCtrlSrvReq where
  "req1 = \<lparr>dst = [], endFlag = False, conn = Some 7, callback = Some 2,
            rawReq = ''GET / HTTP/1.1'' @ CRLF @ CRLF\<rparr>"

text \<open>
  A decoded request with the DNS and the Connect options both set, and one with the Connect
  and the WebSocket options.
\<close>

definition crDNS :: clientRequest where
  "crDNS = cr0\<lparr>Opt := {doDNS, doConnect}\<rparr>"

definition envDNS :: env where
  "envDNS = env0\<lparr>decryptHost := (''example.org'', Some crDNS)\<rparr>"

definition crWS :: clientRequest where
  "crWS = cr0\<lparr>Opt := {doConnect, doWebSocket}\<rparr>"

section \<open>Properties\<close>

subsection \<open>Authentication\<close>

text \<open>
  C9. When multi-user auth is configured (\<open>Users\<close> is a map \<open>m\<close>), \<open>auth\<close> accepts a token
  exactly when it is a key of \<open>m\<close>. The per-user records are never read: replacing the table
  by any other table with the same keys changes neither the answer of \<open>auth\<close> nor the I/O
  configuration, which depends on the server-wide throttle only and not on the token.
\<close>

theorem auth_iff_key_of_Users:
  "(Users p = Some m \<longrightarrow> (auth p a \<longleftrightarrow> a \<in> dom m))
   \<and> (dom m = dom m' \<longrightarrow>
        auth (p\<lparr>Users := Some m\<rparr>) a = auth (p\<lparr>Users := Some m'\<rparr>) a)
   \<and> getIOConfig (p\<lparr>Users := us\<rparr>) a = getIOConfig p a'"
proof (intro conjI impI)
  assume "Users p = Some m"
  then show "auth p a \<longleftrightarrow> a \<in> dom m"
    by (auto simp: auth_def split: option.splits)
next
  assume d: "dom m = dom m'"
  have "(m a = None) = (m' a = None)"
    using d by (metis domIff)
  then show "auth (p\<lparr>Users := Some m\<rparr>) a = auth (p\<lparr>Users := Some m'\<rparr>) a"
    by (auto simp: auth_def split: option.splits)
next
  show "getIOConfig (p\<lparr>Users := us\<rparr>) a = getIOConfig p a'"
    by (simp add: getIOConfig_def Let_def)
qed

theorem auth_iff_key_of_Users_witness:
  "Users (proxy0\<lparr>Users := Some [''tok-a'' \<mapsto> alice]\<rparr>) = Some [''tok-a'' \<mapsto> alice]
   \<and> auth (proxy0\<lparr>Users := Some [''tok-a'' \<mapsto> alice]\<rparr>) ''tok-a''
   \<and> dom [''tok-a'' \<mapsto> alice] = dom [''tok-a'' \<mapsto> bob]
   \<and> auth (proxy0\<lparr>Users := Some [''tok-a'' \<mapsto> bob]\<rparr>) ''tok-a''"
  using auth_iff_key_of_Users [of "proxy0\<lparr>Users := Some [''tok-a'' \<mapsto> alice]\<rparr>"
      "[''tok-a'' \<mapsto> alice]" "''tok-a''" "[''tok-a'' \<mapsto> bob]" None "''tok-b''"]
  by auto

subsection \<open>Helper lemmas\<close>

lemma bytes_of_nat32:
  fixes n :: nat
  assumes "n < 4294967296"
  shows "((n div 16777216 mod 256 * 256 + n div 65536 mod 256) * 256 + n div 256 mod 256) * 256
           + n mod 256 = n"
proof -
  have e1: "n div 65536 = n div 256 div 256"
    using div_mult2_eq [of n 256 256] by simp
  have e2: "n div 16777216 = n div 65536 div 256"
    using div_mult2_eq [of n 65536 256] by simp
  have top: "n div 16777216 < 256"
    using assms by (simp add: div_less_iff_less_mult)
  have s0: "n = n div 256 * 256 + n mod 256"
    by simp
  have s1: "n div 256 = n div 65536 * 256 + n div 256 mod 256"
    unfolding e1 by simp
  have s2: "n div 65536 = n div 16777216 * 256 + n div 65536 mod 256"
    unfolding e2 by simp
  have "((n div 16777216 mod 256 * 256 + n div 65536 mod 256) * 256 + n div 256 mod 256) * 256
           + n mod 256
        = ((n div 16777216 * 256 + n div 65536 mod 256) * 256 + n div 256 mod 256) * 256
           + n mod 256"
    using top by simp
  also have "\<dots> = (n div 65536 * 256 + n div 256 mod 256) * 256 + n mod 256"
    using s2 by simp
  also have "\<dots> = n div 256 * 256 + n mod 256"
    using s1 by simp
  also have "\<dots> = n"
    using s0 by simp
  finally show ?thesis .
qed

text \<open>Reading back the four bytes that \<open>PutUint32\<close> wrote gives the value written.\<close>

lemma Uint32_PutUint32: "Uint32 (PutUint32 v) = unat v"
proof -
  have lt: "unat v < 4294967296"
    using unsigned_less [of v] by simp
  then have top: "unat v div 16777216 mod 256 = unat v div 16777216"
    by (simp add: div_less_iff_less_mult)
  from bytes_of_nat32 [OF lt] top show ?thesis
    by (simp add: PutUint32_def unat_drop_bit_eq drop_bit_eq_div unat_div)
qed

lemma lru_hits_Add:
  assumes "0 < capacity c"
  shows "lru_hits (lru_Add k c) k = lru_hits c k + 1"
proof -
  obtain n where n: "capacity c = Suc n"
    using assms by (cases "capacity c") auto
  show ?thesis
    by (simp add: lru_Add_def lru_hits_def n)
qed

lemma ServeHTTP_chain:
  assumes "splitHostPort e = Some addr"
    and "decryptHost e = (dsts, Some cr)"
    and "dsts \<noteq> []"
    and "Users (proxy w) = None \<or> auth (proxy w) (Auth cr)"
  shows "ServeHTTP e w =
           (if IsSet (Opt cr) doDNS then ServeHTTP_dns e cr w
            else if IsSet (Opt cr) doLocalRP then ServeHTTP_localrp e dsts cr w
            else if IsSet (Opt cr) doConnect then ServeHTTP_connect e dsts cr w
            else if IsSet (Opt cr) doForward then ServeHTTP_forward e dsts cr w
            else Returned
                   (w\<lparr>proxy := (proxy w)\<lparr>blacklist := lru_Add addr (blacklist (proxy w))\<rparr>\<rparr>)
                   (replySomething (proxy w)))"
  using assms by (auto simp: ServeHTTP_def Let_def)

lemma withOpt_chain:
  assumes "splitHostPort e = Some addr"
    and "dsts \<noteq> []"
    and "Users (proxy w) = None \<or> auth (proxy w) (Auth cr)"
  shows "ServeHTTP (withOpt e dsts cr opt) w =
           (if doDNS \<in> opt then ServeHTTP_dns (withOpt e dsts cr opt) (cr\<lparr>Opt := opt\<rparr>) w
            else if doLocalRP \<in> opt
            then ServeHTTP_localrp (withOpt e dsts cr opt) dsts (cr\<lparr>Opt := opt\<rparr>) w
            else if doConnect \<in> opt
            then ServeHTTP_connect (withOpt e dsts cr opt) dsts (cr\<lparr>Opt := opt\<rparr>) w
            else if doForward \<in> opt
            then ServeHTTP_forward (withOpt e dsts cr opt) dsts (cr\<lparr>Opt := opt\<rparr>) w
            else Returned
                   (w\<lparr>proxy := (proxy w)\<lparr>blacklist := lru_Add addr (blacklist (proxy w))\<rparr>\<rparr>)
                   (replySomething (proxy w)))"
proof -
  have "ServeHTTP (withOpt e dsts cr opt) w =
           (if IsSet (Opt (cr\<lparr>Opt := opt\<rparr>)) doDNS
            then ServeHTTP_dns (withOpt e dsts cr opt) (cr\<lparr>Opt := opt\<rparr>) w
            else if IsSet (Opt (cr\<lparr>Opt := opt\<rparr>)) doLocalRP
            then ServeHTTP_localrp (withOpt e dsts cr opt) dsts (cr\<lparr>Opt := opt\<rparr>) w
            else if IsSet (Opt (cr\<lparr>Opt := opt\<rparr>)) doConnect
            then ServeHTTP_connect (withOpt e dsts cr opt) dsts (cr\<lparr>Opt := opt\<rparr>) w
            else if IsSet (Opt (cr\<lparr>Opt := opt\<rparr>)) doForward
            then ServeHTTP_forward (withOpt e dsts cr opt) dsts (cr\<lparr>Opt := opt\<rparr>) w
            else Returned
                   (w\<lparr>proxy := (proxy w)\<lparr>blacklist := lru_Add addr (blacklist (proxy w))\<rparr>\<rparr>)
                   (replySomething (proxy w)))"
    using assms by (intro ServeHTTP_chain) (simp_all add: withOpt_def)
  then show ?thesis by (simp add: IsSet_def)
qed

lemma dns_ignores_options:
  "ServeHTTP_dns (withOpt e dsts cr opt) (cr\<lparr>Opt := opt\<rparr>) w =
   ServeHTTP_dns (withOpt e dsts cr opt') (cr\<lparr>Opt := opt'\<rparr>) w"
  by (simp add: ServeHTTP_dns_def withOpt_def)

lemma localrp_ignores_later:
  assumes "(doWebSocket \<in> opt) = (doWebSocket \<in> opt')"
    and "(doPartial \<in> opt) = (doPartial \<in> opt')"
  shows "ServeHTTP_localrp (withOpt e dsts cr opt) dsts (cr\<lparr>Opt := opt\<rparr>) w =
         ServeHTTP_localrp (withOpt e dsts cr opt') dsts (cr\<lparr>Opt := opt'\<rparr>) w"
  using assms
  by (simp add: ServeHTTP_localrp_def startLocalRPControlServer_def replyGood_def hijack_def
      withOpt_def IsSet_def Let_def cong: option.case_cong if_cong)

lemma connect_ignores_later:
  assumes "(doWebSocket \<in> opt) = (doWebSocket \<in> opt')"
    and "(doPartial \<in> opt) = (doPartial \<in> opt')"
    and "(doUDPRelay \<in> opt) = (doUDPRelay \<in> opt')"
    and "(doMuxWS \<in> opt) = (doMuxWS \<in> opt')"
  shows "ServeHTTP_connect (withOpt e dsts cr opt) dsts (cr\<lparr>Opt := opt\<rparr>) w =
         ServeHTTP_connect (withOpt e dsts cr opt') dsts (cr\<lparr>Opt := opt'\<rparr>) w"
  using assms
  by (simp add: ServeHTTP_connect_def replyGood_def hijack_def
      withOpt_def IsSet_def Let_def cong: option.case_cong if_cong)


lemma norm32_id: "norm32 x = x"
  by (simp add: norm32_def)

lemma sha1_sched_numeral:
  "sha1_sched (numeral k) ws =
     sha1_sched (pred_numeral k)
       (norm32 (rotl 1 (ws ! 2 XOR ws ! 7 XOR ws ! 13 XOR ws ! 15)) # ws)"
  by (simp add: numeral_eq_Suc norm32_id)

lemma sha1_sched_Suc:
  "sha1_sched (Suc n) ws =
     sha1_sched n (norm32 (rotl 1 (ws ! 2 XOR ws ! 7 XOR ws ! 13 XOR ws ! 15)) # ws)"
  by (simp add: norm32_id)

lemma sha1_rounds_norm:
  "sha1_rounds t (w # ws) (a, b, c, d, e) =
     sha1_rounds (Suc t) ws
       (norm32 (rotl 5 a + sha1_f t b c d + e + w + sha1_k t), a, norm32 (rotl 30 b), c, d)"
  by (simp add: norm32_id)

lemma sha1_block_norm:
  "sha1_block (h0, h1, h2, h3, h4) blk =
     (case sha1_rounds 0 (rev (sha1_sched 64 (rev (map be32 (chunks 4 blk)))))
             (h0, h1, h2, h3, h4) of
        (a, b, c, d, e) \<Rightarrow>
          (norm32 (h0 + a), norm32 (h1 + b), norm32 (h2 + c), norm32 (h3 + d), norm32 (h4 + e)))"
  by (simp add: norm32_id Let_def)

lemma replicate_numeral_Cons: "replicate (numeral k) x = x # replicate (pred_numeral k) x"
  by (simp add: numeral_eq_Suc)

text \<open>The example of RFC 6455, section 1.3, evaluated.\<close>

lemma rfc6455_sample_accept:
  "EncodeToString (sha1_Sum (''dGhlIHNhbXBsZSBub25jZQ=='' @ ''258EAFA5-E914-47DA-95CA-C5AB0DC85B11''))
     = ''s3pPLMBiTxaQ9kYGzzhZRbK+xOo=''"
  by (simp add: sha1_Sum_def sha1_pad_def PutUint64_def PutUint32_def replicate_numeral_Cons
      sha1_sched_numeral sha1_sched_Suc sha1_rounds_norm sha1_block_norm norm32_def rotl_def
      sha1_k_def sha1_f_def be32_def EncodeToString_def encodeStd_def
      del: sha1_sched.simps(2) sha1_rounds.simps(2) sha1_block.simps)

subsection \<open>Registration while LocalRP is disabled\<close>

text \<open>
  C10. A control registration that arrives on a socket \<open>d\<close> while \<open>DisableLRP\<close> is set: the
  handler writes the line \<open>HTTP/1.1 200 OK\<close> (with the empty line ending the header) to the
  socket, then closes it, and returns with the store untouched: no agent appended, no queue,
  waiting map, routing loop, bridge or heartbeat created. This holds whether or not the
  write succeeds.
\<close>

theorem disabled_registration_rejected:
  assumes "DisableLRP (proxy w)"
  shows "startLocalRPControlServer e (Some d) cr ioc w =
           Returned w
             [ConnWrite d (''HTTP/1.1 200 OK'' @ [CHR 0x0D, CHR 0x0A, CHR 0x0D, CHR 0x0A]),
              ConnClose d]"
  using assms by (simp add: startLocalRPControlServer_def ok200_def CRLF_def)

theorem disabled_registration_rejected_witness:
  "DisableLRP (proxy (world1\<lparr>proxy := (proxy world1)\<lparr>DisableLRP := True\<rparr>\<rparr>))
   \<and> startLocalRPControlServer env0 (Some 5) cr0 ioc0
         (world1\<lparr>proxy := (proxy world1)\<lparr>DisableLRP := True\<rparr>\<rparr>) =
       Returned (world1\<lparr>proxy := (proxy world1)\<lparr>DisableLRP := True\<rparr>\<rparr>)
         [ConnWrite 5 (''HTTP/1.1 200 OK'' @ [CHR 0x0D, CHR 0x0A, CHR 0x0D, CHR 0x0A]),
          ConnClose 5]"
  using disabled_registration_rejected
    [of "world1\<lparr>proxy := (proxy world1)\<lparr>DisableLRP := True\<rparr>\<rparr>" env0 5 cr0 ioc0]
  by simp

subsection \<open>The routing loop\<close>

text \<open>
  C5. A pending request (not the end marker) whose destination has 65535 bytes or more, with
  its completion channel \<open>cb\<close> empty: the turn of the routing loop sends the response
  \<open>tooLong\<close>, whose error is "request too long", on \<open>cb\<close> and ends with no effect recorded
  (no control message written) and nothing else changed in the store: the waiting map is as
  before and no random bytes were drawn (no token minted). With the request at the head of
  the queue, the loop goes on with the rest of the queue.
\<close>

theorem oversized_destination_fails_request:
  assumes "65535 \<le> length (dst r)"
    and "callback r = Some cb"
    and "cbChans w cb = []"
  shows "routeRequest r w = Returned (w\<lparr>cbChans := (cbChans w)(cb := [tooLong])\<rparr>) []
    \<and> err tooLong = Some ''request too long''
    \<and> (requests (proxy w) = Some q \<and> buf (reqChans w q) = r # rest \<and> \<not> endFlag r \<longrightarrow>
         routingLoop w =
           routingLoop (w\<lparr>reqChans := (reqChans w)(q := (reqChans w q)\<lparr>buf := rest\<rparr>),
                          cbChans := (cbChans w)(cb := [tooLong])\<rparr>))"
proof -
  have step: "\<And>w0. cbChans w0 cb = [] \<Longrightarrow>
      routeRequest r w0 = Returned (w0\<lparr>cbChans := (cbChans w0)(cb := [tooLong])\<rparr>) []"
    using assms(1,2) by (simp add: routeRequest_def sendCb_def)
  show ?thesis
  proof (intro conjI impI)
    show "routeRequest r w = Returned (w\<lparr>cbChans := (cbChans w)(cb := [tooLong])\<rparr>) []"
      using step [OF assms(3)] .
  next
    show "err tooLong = Some ''request too long''"
      by (simp add: tooLong_def)
  next
    assume h: "requests (proxy w) = Some q \<and> buf (reqChans w q) = r # rest \<and> \<not> endFlag r"
    let ?w1 = "w\<lparr>reqChans := (reqChans w)(q := (reqChans w q)\<lparr>buf := rest\<rparr>)\<rparr>"
    have "cbChans ?w1 cb = []" using assms(3) by simp
    from step [OF this]
    have "routeRequest r ?w1 = Returned (?w1\<lparr>cbChans := (cbChans ?w1)(cb := [tooLong])\<rparr>) []" .
    then show "routingLoop w =
           routingLoop (w\<lparr>reqChans := (reqChans w)(q := (reqChans w q)\<lparr>buf := rest\<rparr>),
                          cbChans := (cbChans w)(cb := [tooLong])\<rparr>)"
      using h by (subst routingLoop.simps) simp
  qed
qed

theorem oversized_destination_fails_request_witness:
  "65535 \<le> length (dst bigReq) \<and> callback bigReq = Some 2 \<and> cbChans world2 2 = []
   \<and> requests (proxy world2) = Some 0 \<and> buf (reqChans world2 0) = bigReq # []
   \<and> \<not> endFlag bigReq
   \<and> routeRequest bigReq world2 =
       Returned (world2\<lparr>cbChans := (cbChans world2)(2 := [tooLong])\<rparr>) []
   \<and> routingLoop world2 =
       routingLoop (world2\<lparr>reqChans := (reqChans world2)(0 := (reqChans world2 0)\<lparr>buf := []\<rparr>),
                           cbChans := (cbChans world2)(2 := [tooLong])\<rparr>)"
  using oversized_destination_fails_request [of bigReq 2 world2 0 "[]"]
  by (simp add: bigReq_def world2_def world1_def world0_def proxy0_def)

text \<open>
  C6. A pending request that the routing loop dispatches (destination below 65535 bytes,
  session active with at least one agent): the turn draws 16 random bytes \<open>tok\<close>, stores the
  request in the waiting map under the hex encoding of \<open>tok\<close>, and writes to the endpoint of
  an agent picked among the registered ones exactly one control message \<open>msg\<close>: \<open>tok\<close>, then
  the 4 big-endian bytes of the \<open>uint32\<close> length of the raw request (they read back as that
  length modulo \<open>2 ^ 32\<close>, the length itself below 4 GiB), then the raw request; 20 bytes more
  than the raw request in all.
\<close>

theorem control_message_format:
  assumes "length (dst r) < 65535"
    and "waiting (proxy w) = Some m"
    and "downConns (proxy w) \<noteq> []"
  shows "let tok = map (\<lambda>i. char_of (randDraws w (randPos w + i))) [0..<16];
             msg = tok @ PutUint32 (word_of_nat (length (rawReq r))) @ rawReq r
         in routeRequest r w =
              Returned
                (w\<lparr>randPos := randPos w + 17,
                   proxy := (proxy w)\<lparr>waiting :=
                     Some (m(hex tok \<mapsto> \<lparr>err = None, localrpr = hex tok, req = r\<rparr>))\<rparr>\<rparr>)
                [GoDummyWrite
                   (downConns (proxy w) !
                      (randDraws w (randPos w + 16) mod length (downConns (proxy w)))) msg]
            \<and> length tok = 16
            \<and> length msg = 20 + length (rawReq r)
            \<and> take 16 msg = tok
            \<and> Uint32 (take 4 (drop 16 msg)) = length (rawReq r) mod 2 ^ 32
            \<and> drop 20 msg = rawReq r"
proof -
  have len4: "length (PutUint32 v) = 4" for v
    by (simp add: PutUint32_def)
  have dec: "Uint32 (PutUint32 (word_of_nat n :: 32 word)) = n mod 2 ^ 32" for n
    by (simp add: Uint32_PutUint32 unat_of_nat)
  show ?thesis
    using assms
    by (simp add: Let_def routeRequest_def Rand_Read_def pickAControlConn_def Intn_def
        len4 dec)
qed

theorem control_message_format_witness:
  "length (dst req1) < 65535 \<and> waiting (proxy world1) = Some Map.empty
   \<and> downConns (proxy world1) \<noteq> []
   \<and> (let tok = map (\<lambda>i. char_of (randDraws world1 (randPos world1 + i))) [0..<16];
           msg = tok @ PutUint32 (word_of_nat (length (rawReq req1))) @ rawReq req1
       in routeRequest req1 world1 =
            Returned
              (world1\<lparr>randPos := randPos world1 + 17,
                 proxy := (proxy world1)\<lparr>waiting :=
                   Some (Map.empty(hex tok \<mapsto> \<lparr>err = None, localrpr = hex tok, req = req1\<rparr>))\<rparr>\<rparr>)
              [GoDummyWrite
                 (downConns (proxy world1) !
                    (randDraws world1 (randPos world1 + 16) mod length (downConns (proxy world1))))
                 msg]
          \<and> length tok = 16
          \<and> length msg = 20 + length (rawReq req1)
          \<and> take 16 msg = tok
          \<and> Uint32 (take 4 (drop 16 msg)) = length (rawReq req1) mod 2 ^ 32
          \<and> drop 20 msg = rawReq req1)"
proof -
  have h1: "length (dst req1) < 65535"
    by (simp add: req1_def)
  have h2: "waiting (proxy world1) = Some Map.empty"
    by (simp add: world1_def)
  have h3: "downConns (proxy world1) \<noteq> []"
    by (simp add: world1_def)
  show ?thesis
    by (rule conjI [OF h1 conjI [OF h2 conjI [OF h3 control_message_format [OF h1 h2 h3]]]])
qed

subsection \<open>The dispatcher\<close>

text \<open>
  C7. A request with a remote address \<open>addr\<close> whose envelope fails to decode (empty
  destination or no request) while no LocalRP session is active (\<open>waiting\<close> is nil):
  \<open>ServeHTTP\<close> returns after recording \<open>addr\<close> in the blacklist cache and answering with
  the default page, which is the 404 page or the configured passthrough handler and nothing
  else; the hit count of \<open>addr\<close> in the cache is then one more than before.
\<close>

theorem malformed_envelope_without_session:
  assumes "splitHostPort e = Some addr"
    and "fst (decryptHost e) = [] \<or> snd (decryptHost e) = None"
    and "waiting (proxy w) = None"
    and "0 < capacity (blacklist (proxy w))"
  shows "ServeHTTP e w =
           Returned (w\<lparr>proxy := (proxy w)\<lparr>blacklist := lru_Add addr (blacklist (proxy w))\<rparr>\<rparr>)
             (case rp (proxy w) of
                None \<Rightarrow> [WriteHeader 404, WriteBody page404]
              | Some h \<Rightarrow> [ServeRP h])
         \<and> lru_hits (lru_Add addr (blacklist (proxy w))) addr
             = lru_hits (blacklist (proxy w)) addr + 1"
proof
  obtain dsts cro where d: "decryptHost e = (dsts, cro)"
    by (cases "decryptHost e")
  with assms(2) have "dsts = [] \<or> cro = None" by simp
  then show "ServeHTTP e w =
           Returned (w\<lparr>proxy := (proxy w)\<lparr>blacklist := lru_Add addr (blacklist (proxy w))\<rparr>\<rparr>)
             (case rp (proxy w) of
                None \<Rightarrow> [WriteHeader 404, WriteBody page404]
              | Some h \<Rightarrow> [ServeRP h])"
    using assms(1,3) d
    by (cases cro) (auto simp: ServeHTTP_def replySomething_def Let_def)
next
  show "lru_hits (lru_Add addr (blacklist (proxy w))) addr
             = lru_hits (blacklist (proxy w)) addr + 1"
    using assms(4) by (rule lru_hits_Add)
qed


theorem malformed_envelope_without_session_witness:
  "splitHostPort env0 = Some ''203.0.113.9''
   \<and> (fst (decryptHost env0) = [] \<or> snd (decryptHost env0) = None)
   \<and> waiting (proxy world0) = None
   \<and> 0 < capacity (blacklist (proxy world0))
   \<and> ServeHTTP env0 world0 =
        Returned (world0\<lparr>proxy := proxy0\<lparr>blacklist :=
                     \<lparr>capacity = 128, entries = [(''203.0.113.9'', 1)]\<rparr>\<rparr>\<rparr>)
          [WriteHeader 404, WriteBody page404]
   \<and> lru_hits (lru_Add ''203.0.113.9'' (blacklist (proxy world0))) ''203.0.113.9'' = 1"
proof -
  have h1: "splitHostPort env0 = Some ''203.0.113.9''"
    by (simp add: env0_def)
  have h2: "fst (decryptHost env0) = [] \<or> snd (decryptHost env0) = None"
    by (simp add: env0_def)
  have h3: "waiting (proxy world0) = None"
    by (simp add: world0_def proxy0_def)
  have h4: "0 < capacity (blacklist (proxy world0))"
    by (simp add: world0_def proxy0_def)
  show ?thesis
    using h1 h2 h3 h4 malformed_envelope_without_session [OF h1 h2 h3 h4]
    by (simp add: world0_def proxy0_def lru_Add_def lru_hits_def)
qed

text \<open>
  C3. A request with a remote address whose envelope decodes (to a non-empty destination
  \<open>dsts\<close> and a request \<open>cr\<close>) and that passes the auth gate is handled by exactly one branch,
  chosen by the first option set among DNS, LocalRP, Connect, Forward in this order; with
  none of them set the address is recorded in the blacklist cache and the default page is
  returned. The options behind the first one set are not consulted: setting or clearing any
  of them leaves the outcome of \<open>ServeHTTP\<close> as it is.
\<close>

theorem dispatch_precedence:
  assumes "splitHostPort e = Some addr"
    and "decryptHost e = (dsts, Some cr)"
    and "dsts \<noteq> []"
    and "Users (proxy w) = None \<or> auth (proxy w) (Auth cr)"
  shows "ServeHTTP e w =
           (if IsSet (Opt cr) doDNS then ServeHTTP_dns e cr w
            else if IsSet (Opt cr) doLocalRP then ServeHTTP_localrp e dsts cr w
            else if IsSet (Opt cr) doConnect then ServeHTTP_connect e dsts cr w
            else if IsSet (Opt cr) doForward then ServeHTTP_forward e dsts cr w
            else Returned
                   (w\<lparr>proxy := (proxy w)\<lparr>blacklist := lru_Add addr (blacklist (proxy w))\<rparr>\<rparr>)
                   (replySomething (proxy w)))
    \<and> (IsSet (Opt cr) doDNS \<longrightarrow>
         (\<forall>X. X \<subseteq> {doLocalRP, doConnect, doForward} \<longrightarrow>
            ServeHTTP (withOpt e dsts cr (Opt cr \<union> X)) w = ServeHTTP e w
          \<and> ServeHTTP (withOpt e dsts cr (Opt cr - X)) w = ServeHTTP e w))
    \<and> (\<not> IsSet (Opt cr) doDNS \<and> IsSet (Opt cr) doLocalRP \<longrightarrow>
         (\<forall>X. X \<subseteq> {doConnect, doForward} \<longrightarrow>
            ServeHTTP (withOpt e dsts cr (Opt cr \<union> X)) w = ServeHTTP e w
          \<and> ServeHTTP (withOpt e dsts cr (Opt cr - X)) w = ServeHTTP e w))
    \<and> (\<not> IsSet (Opt cr) doDNS \<and> \<not> IsSet (Opt cr) doLocalRP \<and> IsSet (Opt cr) doConnect \<longrightarrow>
         (\<forall>X. X \<subseteq> {doForward} \<longrightarrow>
            ServeHTTP (withOpt e dsts cr (Opt cr \<union> X)) w = ServeHTTP e w
          \<and> ServeHTTP (withOpt e dsts cr (Opt cr - X)) w = ServeHTTP e w))"
proof -
  note chain = withOpt_chain [OF assms(1) assms(3) assms(4)]
  have self: "withOpt e dsts cr (Opt cr) = e"
    using assms(2) by (simp add: withOpt_def)
  have base: "ServeHTTP e w = ServeHTTP (withOpt e dsts cr (Opt cr)) w"
    by (simp add: self)
  have dns: "ServeHTTP (withOpt e dsts cr opt) w = ServeHTTP e w"
    if "doDNS \<in> Opt cr" "doDNS \<in> opt" for opt
    unfolding base chain [of opt] chain [of "Opt cr"]
    using that dns_ignores_options [of e dsts cr opt w "Opt cr"] by simp
  have lrp: "ServeHTTP (withOpt e dsts cr opt) w = ServeHTTP e w"
    if "doDNS \<notin> Opt cr" "doLocalRP \<in> Opt cr" "doDNS \<notin> opt" "doLocalRP \<in> opt"
      "(doWebSocket \<in> opt) = (doWebSocket \<in> Opt cr)"
      "(doPartial \<in> opt) = (doPartial \<in> Opt cr)" for opt
    unfolding base chain [of opt] chain [of "Opt cr"]
    using that localrp_ignores_later [of opt "Opt cr" e dsts cr w] by simp
  have con: "ServeHTTP (withOpt e dsts cr opt) w = ServeHTTP e w"
    if "doDNS \<notin> Opt cr" "doLocalRP \<notin> Opt cr" "doConnect \<in> Opt cr"
      "doDNS \<notin> opt" "doLocalRP \<notin> opt" "doConnect \<in> opt"
      "(doWebSocket \<in> opt) = (doWebSocket \<in> Opt cr)"
      "(doPartial \<in> opt) = (doPartial \<in> Opt cr)"
      "(doUDPRelay \<in> opt) = (doUDPRelay \<in> Opt cr)"
      "(doMuxWS \<in> opt) = (doMuxWS \<in> Opt cr)" for opt
    unfolding base chain [of opt] chain [of "Opt cr"]
    using that connect_ignores_later [of opt "Opt cr" e dsts cr w] by simp
  show ?thesis
  proof (intro conjI impI allI)
    show "ServeHTTP e w =
           (if IsSet (Opt cr) doDNS then ServeHTTP_dns e cr w
            else if IsSet (Opt cr) doLocalRP then ServeHTTP_localrp e dsts cr w
            else if IsSet (Opt cr) doConnect then ServeHTTP_connect e dsts cr w
            else if IsSet (Opt cr) doForward then ServeHTTP_forward e dsts cr w
            else Returned
                   (w\<lparr>proxy := (proxy w)\<lparr>blacklist := lru_Add addr (blacklist (proxy w))\<rparr>\<rparr>)
                   (replySomething (proxy w)))"
      using assms by (rule ServeHTTP_chain)
  next
    fix X assume "IsSet (Opt cr) doDNS" "X \<subseteq> {doLocalRP, doConnect, doForward}"
    then have a: "doDNS \<in> Opt cr" "doDNS \<notin> X"
      by (auto simp: IsSet_def)
    show "ServeHTTP (withOpt e dsts cr (Opt cr \<union> X)) w = ServeHTTP e w"
      using a by (intro dns) simp_all
    show "ServeHTTP (withOpt e dsts cr (Opt cr - X)) w = ServeHTTP e w"
      using a by (intro dns) simp_all
  next
    fix X assume "\<not> IsSet (Opt cr) doDNS \<and> IsSet (Opt cr) doLocalRP" "X \<subseteq> {doConnect, doForward}"
    then have a: "doDNS \<notin> Opt cr" "doLocalRP \<in> Opt cr"
      "doDNS \<notin> X" "doLocalRP \<notin> X" "doWebSocket \<notin> X" "doPartial \<notin> X"
      by (auto simp: IsSet_def)
    show "ServeHTTP (withOpt e dsts cr (Opt cr \<union> X)) w = ServeHTTP e w"
      using a by (intro lrp) simp_all
    show "ServeHTTP (withOpt e dsts cr (Opt cr - X)) w = ServeHTTP e w"
      using a by (intro lrp) simp_all
  next
    fix X assume "\<not> IsSet (Opt cr) doDNS \<and> \<not> IsSet (Opt cr) doLocalRP \<and> IsSet (Opt cr) doConnect"
      "X \<subseteq> {doForward}"
    then have a: "doDNS \<notin> Opt cr" "doLocalRP \<notin> Opt cr" "doConnect \<in> Opt cr"
      "doDNS \<notin> X" "doLocalRP \<notin> X" "doConnect \<notin> X" "doWebSocket \<notin> X" "doPartial \<notin> X"
      "doUDPRelay \<notin> X" "doMuxWS \<notin> X"
      by (auto simp: IsSet_def)
    show "ServeHTTP (withOpt e dsts cr (Opt cr \<union> X)) w = ServeHTTP e w"
      using a by (intro con) simp_all
    show "ServeHTTP (withOpt e dsts cr (Opt cr - X)) w = ServeHTTP e w"
      using a by (intro con) simp_all
  qed
qed


theorem dispatch_precedence_witness:
  "splitHostPort envDNS = Some ''203.0.113.9''
   \<and> decryptHost envDNS = (''example.org'', Some crDNS)
   \<and> ''example.org'' \<noteq> []
   \<and> (Users (proxy world0) = None \<or> auth (proxy world0) (Auth crDNS))
   \<and> IsSet (Opt crDNS) doDNS
   \<and> {doConnect} \<subseteq> {doLocalRP, doConnect, doForward}
   \<and> ServeHTTP envDNS world0 =
        Returned world0 [AddHeader ''X-Host-Lookup'' ''XbjYIg=='', WriteHeader 200]
   \<and> ServeHTTP (withOpt envDNS ''example.org'' crDNS (Opt crDNS - {doConnect})) world0 =
        ServeHTTP envDNS world0"
proof -
  have h1: "splitHostPort envDNS = Some ''203.0.113.9''"
    by (simp add: envDNS_def env0_def)
  have h2: "decryptHost envDNS = (''example.org'', Some crDNS)"
    by (simp add: envDNS_def)
  have h3: "''example.org'' \<noteq> []"
    by simp
  have h4: "Users (proxy world0) = None \<or> auth (proxy world0) (Auth crDNS)"
    by (simp add: world0_def proxy0_def)
  have h5: "IsSet (Opt crDNS) doDNS"
    by (simp add: IsSet_def crDNS_def)
  have h6: "{doConnect} \<subseteq> {doLocalRP, doConnect, doForward}"
    by simp
  note t = dispatch_precedence [OF h1 h2 h3 h4]
  have c1: "ServeHTTP envDNS world0 = ServeHTTP_dns envDNS crDNS world0"
    using conjunct1 [OF t] h5 by simp
  have c2: "ServeHTTP (withOpt envDNS ''example.org'' crDNS (Opt crDNS - {doConnect})) world0 =
        ServeHTTP envDNS world0"
    using conjunct1 [OF conjunct2 [OF t]] h5 h6 by blast
  have c3: "ServeHTTP_dns envDNS crDNS world0 =
        Returned world0 [AddHeader ''X-Host-Lookup'' ''XbjYIg=='', WriteHeader 200]"
    by (simp add: ServeHTTP_dns_def envDNS_def env0_def EncodeToString_def encodeStd_def)
  show ?thesis
    using h1 h2 h3 h4 h5 h6 c1 c2 c3 by simp
qed

text \<open>
  C8. For a request with the WebSocket option set, the success response written by
  \<open>replyGood\<close> is the 101 Switching Protocols response whose \<open>Sec-WebSocket-Accept\<close> value is
  the base64 encoding of the SHA-1 of the client's \<open>Sec-WebSocket-Key\<close> followed by the GUID
  \<open>258EAFA5-E914-47DA-95CA-C5AB0DC85B11\<close>; for the key \<open>dGhlIHNhbXBsZSBub25jZQ==\<close> that
  value is \<open>s3pPLMBiTxaQ9kYGzzhZRbK+xOo=\<close>.
\<close>

theorem websocket_accept_value:
  "(IsSet (Opt cr) doWebSocket \<longrightarrow>
      replyGood e (Some d) cr ioc =
        Some (ioc\<lparr>WSCtrl := wsServer\<rparr>,
              [ConnWrite d
                 (''HTTP/1.1 101 Switching Protocols'' @ CRLF @
                  ''Upgrade: websocket'' @ CRLF @
                  ''Connection: upgrade'' @ CRLF @
                  ''Sec-WebSocket-Accept: '' @
                  EncodeToString (sha1_Sum (wsKey e @ ''258EAFA5-E914-47DA-95CA-C5AB0DC85B11'')) @
                  CRLF @ CRLF)]))
   \<and> EncodeToString
        (sha1_Sum (''dGhlIHNhbXBsZSBub25jZQ=='' @ ''258EAFA5-E914-47DA-95CA-C5AB0DC85B11''))
       = ''s3pPLMBiTxaQ9kYGzzhZRbK+xOo=''"
proof (intro conjI impI)
  assume "IsSet (Opt cr) doWebSocket"
  then show "replyGood e (Some d) cr ioc =
        Some (ioc\<lparr>WSCtrl := wsServer\<rparr>,
              [ConnWrite d
                 (''HTTP/1.1 101 Switching Protocols'' @ CRLF @
                  ''Upgrade: websocket'' @ CRLF @
                  ''Connection: upgrade'' @ CRLF @
                  ''Sec-WebSocket-Accept: '' @
                  EncodeToString (sha1_Sum (wsKey e @ ''258EAFA5-E914-47DA-95CA-C5AB0DC85B11'')) @
                  CRLF @ CRLF)])"
    by (simp add: replyGood_def wsGUID_def)
next
  show "EncodeToString
        (sha1_Sum (''dGhlIHNhbXBsZSBub25jZQ=='' @ ''258EAFA5-E914-47DA-95CA-C5AB0DC85B11''))
       = ''s3pPLMBiTxaQ9kYGzzhZRbK+xOo=''"
    by (rule rfc6455_sample_accept)
qed


theorem websocket_accept_value_witness:
  "IsSet (Opt crWS) doWebSocket
   \<and> replyGood env0 (Some 7) crWS ioc0 =
        Some (ioc0\<lparr>WSCtrl := wsServer\<rparr>,
              [ConnWrite 7
                 (''HTTP/1.1 101 Switching Protocols'' @ CRLF @
                  ''Upgrade: websocket'' @ CRLF @
                  ''Connection: upgrade'' @ CRLF @
                  ''Sec-WebSocket-Accept: s3pPLMBiTxaQ9kYGzzhZRbK+xOo='' @ CRLF @ CRLF)])"
proof -
  have h: "IsSet (Opt crWS) doWebSocket"
    by (simp add: IsSet_def crWS_def)
  have k: "wsKey env0 = ''dGhlIHNhbXBsZSBub25jZQ==''"
    by (simp add: env0_def)
  note t = websocket_accept_value [of crWS env0 7 ioc0]
  have "replyGood env0 (Some 7) crWS ioc0 =
        Some (ioc0\<lparr>WSCtrl := wsServer\<rparr>,
              [ConnWrite 7
                 (''HTTP/1.1 101 Switching Protocols'' @ CRLF @
                  ''Upgrade: websocket'' @ CRLF @
                  ''Connection: upgrade'' @ CRLF @
                  ''Sec-WebSocket-Accept: '' @
                  EncodeToString
                    (sha1_Sum (''dGhlIHNhbXBsZSBub25jZQ=='' @
                               ''258EAFA5-E914-47DA-95CA-C5AB0DC85B11'')) @
                  CRLF @ CRLF)])"
    using conjunct1 [OF t] h unfolding k by blast
  then show ?thesis
    using h unfolding conjunct2 [OF t] by simp
qed

end
